theory Spec2Isabelle
  imports Complex_Main "HOL-Library.AList" "HOL-Library.Log_Nat"
begin

section \<open>JavaScript numbers\<close>

text \<open>
  Every quantity of the program (prices, volumes, capital, percentages) is a JavaScript
  \<open>number\<close>, a binary64 floating-point value. The model keeps the three non-finite values
  of that type, because the code tests for them (\<open>isNaN\<close>) and produces them (a division
  by zero, an overflow), and takes a finite value as the rational it denotes. Zero carries
  no sign: a division of a non-zero number by zero yields the infinity with the sign of
  the numerator.

  Two readings of the arithmetic follow. The operations \<open>js_add\<close>, \<open>js_sub\<close>, \<open>js_mul\<close> and
  \<open>js_div\<close> are the exact ones; \<open>fl_add\<close>, \<open>fl_sub\<close>, \<open>fl_mul\<close> and \<open>fl_div\<close> round the exact
  result to the nearest binary64 value, as the machine does. The market data service and
  the trend analyzer, whose properties are about the values they compute, are modelled
  with the rounded operations. The strategy engine is modelled with the exact ones: its
  properties are about which formula is computed and which branch is taken, and they are
  stated with the operations of the source, in the order of the source.
\<close>

datatype jsnum = Fin rat | PInf | NInf | NaN

fun isNaN :: "jsnum \<Rightarrow> bool" where
  "isNaN NaN = True"
| "isNaN _ = False"

text \<open>The sign of a number that is not NaN, and the infinity of a given sign
  (NaN for sign 0, as in \<open>0 * Infinity\<close>).\<close>

fun js_sgn :: "jsnum \<Rightarrow> rat" where
  "js_sgn (Fin r) = sgn r"
| "js_sgn PInf = 1"
| "js_sgn NInf = - 1"
| "js_sgn NaN = 0"

definition inf_of_sign :: "rat \<Rightarrow> jsnum" where
  "inf_of_sign s = (if 0 < s then PInf else if s < 0 then NInf else NaN)"

fun js_neg :: "jsnum \<Rightarrow> jsnum" where
  "js_neg (Fin r) = Fin (- r)"
| "js_neg PInf = NInf"
| "js_neg NInf = PInf"
| "js_neg NaN = NaN"

fun js_add :: "jsnum \<Rightarrow> jsnum \<Rightarrow> jsnum" where
  "js_add NaN _ = NaN"
| "js_add _ NaN = NaN"
| "js_add (Fin a) (Fin b) = Fin (a + b)"
| "js_add (Fin a) y = y"
| "js_add x (Fin b) = x"
| "js_add PInf PInf = PInf"
| "js_add NInf NInf = NInf"
| "js_add PInf NInf = NaN"
| "js_add NInf PInf = NaN"

definition js_sub :: "jsnum \<Rightarrow> jsnum \<Rightarrow> jsnum" where
  "js_sub x y = js_add x (js_neg y)"

fun js_mul :: "jsnum \<Rightarrow> jsnum \<Rightarrow> jsnum" where
  "js_mul NaN _ = NaN"
| "js_mul _ NaN = NaN"
| "js_mul (Fin a) (Fin b) = Fin (a * b)"
| "js_mul x y = inf_of_sign (js_sgn x * js_sgn y)"

fun js_div :: "jsnum \<Rightarrow> jsnum \<Rightarrow> jsnum" where
  "js_div NaN _ = NaN"
| "js_div _ NaN = NaN"
| "js_div (Fin a) (Fin b) = (if b = 0 then inf_of_sign (sgn a) else Fin (a / b))"
| "js_div (Fin a) y = Fin 0"
| "js_div x (Fin b) = (if b < 0 then js_neg x else x)"
| "js_div x y = NaN"

fun js_abs :: "jsnum \<Rightarrow> jsnum" where
  "js_abs (Fin r) = Fin \<bar>r\<bar>"
| "js_abs PInf = PInf"
| "js_abs NInf = PInf"
| "js_abs NaN = NaN"

text \<open>Comparisons: every comparison with NaN is false.\<close>

fun js_lt :: "jsnum \<Rightarrow> jsnum \<Rightarrow> bool" where
  "js_lt NaN _ = False"
| "js_lt _ NaN = False"
| "js_lt (Fin a) (Fin b) = (a < b)"
| "js_lt NInf NInf = False"
| "js_lt NInf _ = True"
| "js_lt PInf _ = False"
| "js_lt (Fin a) PInf = True"
| "js_lt (Fin a) NInf = False"

definition js_eq :: "jsnum \<Rightarrow> jsnum \<Rightarrow> bool" where
  "js_eq x y = (x = y \<and> \<not> isNaN x)"

definition js_le :: "jsnum \<Rightarrow> jsnum \<Rightarrow> bool" where
  "js_le x y = (js_lt x y \<or> js_eq x y)"

definition js_gt :: "jsnum \<Rightarrow> jsnum \<Rightarrow> bool" where
  "js_gt x y = js_lt y x"

definition js_ge :: "jsnum \<Rightarrow> jsnum \<Rightarrow> bool" where
  "js_ge x y = js_le y x"

text \<open>\<open>Math.min\<close> of two arguments: NaN when either is NaN.\<close>

definition js_min :: "jsnum \<Rightarrow> jsnum \<Rightarrow> jsnum" where
  "js_min x y = (if isNaN x \<or> isNaN y then NaN else if js_lt y x then y else x)"

subsection \<open>Rounding to binary64\<close>

text \<open>The exponent of a positive rational, \<open>2 ^ ilog2 r \<le> r < 2 ^ (ilog2 r + 1)\<close>: the
  difference of the bit lengths of numerator and denominator, or one less.\<close>

definition ilog2_adj :: "rat \<Rightarrow> int \<Rightarrow> int" where
  "ilog2_adj r d = (if power_int 2 d \<le> r then d else d - 1)"

definition ilog2 :: "rat \<Rightarrow> int" where
  "ilog2 r = ilog2_adj r (bitlen (fst (quotient_of r)) - bitlen (snd (quotient_of r)))"

text \<open>The nearest integer, a tie going to the even one.\<close>

definition roundHalfEven_at :: "rat \<Rightarrow> int \<Rightarrow> int" where
  "roundHalfEven_at x f =
     (if x - of_int f < 1 / 2 then f else if 1 / 2 < x - of_int f then f + 1
      else if even f then f else f + 1)"

definition roundHalfEven :: "rat \<Rightarrow> int" where
  "roundHalfEven x = roundHalfEven_at x \<lfloor>x\<rfloor>"

text \<open>The nearest multiple of a unit \<open>u\<close>; and a positive rational rounded to 53
  significant bits, the unit in the last place being at least \<open>2 ^ - 1074\<close> (the subnormal
  range), with no bound on the exponent.\<close>

definition roundTo :: "rat \<Rightarrow> rat \<Rightarrow> rat" where
  "roundTo r u = of_int (roundHalfEven (r / u)) * u"

definition roundPos :: "rat \<Rightarrow> rat" where
  "roundPos r = roundTo r (power_int 2 (max (ilog2 r) (- 1022) - 52))"

text \<open>Rounding to nearest, ties to even: a rounded magnitude \<open>v\<close> of \<open>2 ^ 1024\<close> or more is
  the infinity of the sign of \<open>r\<close>.\<close>

definition signed :: "rat \<Rightarrow> rat \<Rightarrow> jsnum" where
  "signed r v =
     (if 1024 \<le> ilog2 v then (if 0 < r then PInf else NInf) else Fin (sgn r * v))"

definition round64 :: "jsnum \<Rightarrow> jsnum" where
  "round64 x =
     (case x of
        Fin r \<Rightarrow> if r = 0 then Fin 0 else signed r (roundPos \<bar>r\<bar>)
      | _ \<Rightarrow> x)"

text \<open>A decimal literal of the source denotes the nearest binary64 value.\<close>

definition lit :: "rat \<Rightarrow> jsnum" where
  "lit r = round64 (Fin r)"

definition fl_add :: "jsnum \<Rightarrow> jsnum \<Rightarrow> jsnum" where
  "fl_add x y = round64 (js_add x y)"

definition fl_sub :: "jsnum \<Rightarrow> jsnum \<Rightarrow> jsnum" where
  "fl_sub x y = round64 (js_sub x y)"

definition fl_mul :: "jsnum \<Rightarrow> jsnum \<Rightarrow> jsnum" where
  "fl_mul x y = round64 (js_mul x y)"

definition fl_div :: "jsnum \<Rightarrow> jsnum \<Rightarrow> jsnum" where
  "fl_div x y = round64 (js_div x y)"

text \<open>
  \<open>Number(x.toFixed(2))\<close>: \<open>toFixed\<close> takes the integer \<open>n\<close> nearest to \<open>x * 100\<close> for the exact
  value of \<open>x\<close>, the larger one at a tie, and prints \<open>n / 100\<close> in decimal; \<open>Number\<close> reads the
  decimal back as the nearest binary64 value. \<open>toFixed\<close> prints a number of magnitude at least
  \<open>10^21\<close> in exponent form, so that it is read back unchanged, and prints the non-finite
  values by name.
\<close>

definition toFixed2 :: "jsnum \<Rightarrow> jsnum" where
  "toFixed2 x = (case x of
       Fin r \<Rightarrow> if 10 ^ 21 \<le> \<bar>r\<bar> then Fin r
                else round64 (Fin (sgn r * of_int \<lfloor>\<bar>r\<bar> * 100 + 1 / 2\<rfloor> / 100))
     | _ \<Rightarrow> x)"

definition js_of_nat :: "nat \<Rightarrow> jsnum" where
  "js_of_nat n = Fin (of_nat n)"

text \<open>\<open>xs.slice(-n)\<close>: the last \<open>n\<close> elements, the whole array when \<open>n\<close> is 0
  (\<open>-0\<close> is the index 0) or exceeds the length.\<close>

definition slice_last :: "nat \<Rightarrow> 'a list \<Rightarrow> 'a list" where
  "slice_last n xs = (if n = 0 then xs else drop (length xs - n) xs)"

section \<open>Market data service\<close>

record PricePoint =
  timestamp :: int
  price :: jsnum
  volume24h :: jsnum

record MarketData =
  symbol :: string
  currentPrice :: jsnum
  currentVolume24h :: jsnum
  priceHistory :: "PricePoint list"
  lastUpdated :: int
  updateCount :: nat
  errors :: nat
  volumeChange24h :: jsnum

text \<open>The service's map \<open>marketData\<close> from token to its data.\<close>

type_synonym market = "string \<rightharpoonup> MarketData"

definition getPriceHistory :: "market \<Rightarrow> string \<Rightarrow> PricePoint list" where
  "getPriceHistory md tokenMint =
     (case md tokenMint of None \<Rightarrow> [] | Some d \<Rightarrow> priceHistory d)"

section \<open>Trend analyzer\<close>

datatype TrendDirection = BULLISH | BEARISH | SIDEWAYS

record TrendAnalysis =
  direction :: TrendDirection
  strength :: jsnum
  duration :: int
  priceChange :: jsnum
  volumeChange :: jsnum
  sma20 :: jsnum
  sma50 :: jsnum
  isReversal :: bool
  confidence :: jsnum

definition minTrendStrength_analyzer :: jsnum where "minTrendStrength_analyzer = Fin 5"
definition reversalThreshold :: jsnum where "reversalThreshold = Fin 10"
definition volumeWeight :: jsnum where "volumeWeight = lit (3 / 10)"
definition priceWeight :: jsnum where "priceWeight = lit (7 / 10)"

text \<open>\<open>history.reduce((sum, point) => sum + point.price, 0)\<close>\<close>

definition sumPrices :: "PricePoint list \<Rightarrow> jsnum" where
  "sumPrices history = foldl (\<lambda>sum point. fl_add sum (price point)) (Fin 0) history"

definition calculateSMA :: "PricePoint list \<Rightarrow> nat \<Rightarrow> jsnum" where
  "calculateSMA history period =
     (if length history < period
      then fl_div (sumPrices history) (js_of_nat (length history))
      else toFixed2 (fl_div (sumPrices (slice_last period history)) (js_of_nat period)))"

definition determineTrendDirection :: "jsnum \<Rightarrow> jsnum \<Rightarrow> jsnum \<Rightarrow> TrendDirection" where
  "determineTrendDirection pc s20 s50 =
     (let isBullish = (js_gt pc minTrendStrength_analyzer \<and> js_gt s20 s50);
          isBearish = (js_lt pc (js_neg minTrendStrength_analyzer) \<and> js_lt s20 s50)
      in if isBullish then BULLISH else if isBearish then BEARISH else SIDEWAYS)"

definition detectReversal :: "PricePoint list \<Rightarrow> TrendDirection \<Rightarrow> bool" where
  "detectReversal history currentTrend =
     (if length history < 3 then False
      else
        let recentPrices = slice_last 3 history;
            recentChange =
              fl_mul (fl_div (fl_sub (price (recentPrices ! 2)) (price (recentPrices ! 0)))
                             (price (recentPrices ! 0))) (Fin 100)
        in (currentTrend = BULLISH \<and> js_lt recentChange (js_neg reversalThreshold)) \<or>
           (currentTrend = BEARISH \<and> js_gt recentChange reversalThreshold))"

definition calculateConfidence :: "jsnum \<Rightarrow> jsnum \<Rightarrow> jsnum \<Rightarrow> nat \<Rightarrow> jsnum" where
  "calculateConfidence pc vc str dataPoints =
     (let priceConfidence = fl_mul (js_min (fl_div (js_abs pc) (Fin 20)) (Fin 1)) (Fin 100);
          volumeConfidence = fl_mul (js_min (fl_div (js_abs vc) (Fin 20)) (Fin 1)) (Fin 100);
          strengthConfidence = str;
          dataConfidence = fl_mul (js_min (fl_div (js_of_nat dataPoints) (Fin 10)) (Fin 1)) (Fin 100)
      in fl_add (fl_add (fl_add (fl_mul priceConfidence (lit (4 / 10)))
                                (fl_mul volumeConfidence (lit (2 / 10))))
                        (fl_mul strengthConfidence (lit (3 / 10))))
                (fl_mul dataConfidence (lit (1 / 10))))"

text \<open>\<open>analyzeTrend\<close>, on the history the market data service holds for the token;
  \<open>None\<close> is the source's \<open>null\<close>.\<close>

definition analyzeTrend :: "market \<Rightarrow> string \<Rightarrow> TrendAnalysis option" where
  "analyzeTrend md tokenMint =
     (let history = getPriceHistory md tokenMint in
      if length history < 2 then None
      else
        let s20 = calculateSMA history 20;
            s50 = calculateSMA history 50;
            cur = price (history ! (length history - 1));
            curVol = volume24h (history ! (length history - 1));
            oldestPrice = price (history ! 0);
            oldestVolume = volume24h (history ! 0);
            pc = fl_mul (fl_div (fl_sub cur oldestPrice) oldestPrice) (Fin 100);
            vc = fl_mul (fl_div (fl_sub curVol oldestVolume) oldestVolume) (Fin 100);
            dur = timestamp (history ! (length history - 1)) - timestamp (history ! 0);
            dir = determineTrendDirection pc s20 s50;
            priceStrength = js_min (fl_div (js_abs pc) minTrendStrength_analyzer) (Fin 1);
            volumeStrength = js_min (fl_div (js_abs vc) minTrendStrength_analyzer) (Fin 1);
            str = fl_mul (fl_add (fl_mul priceStrength priceWeight)
                                 (fl_mul volumeStrength volumeWeight)) (Fin 100);
            rev = detectReversal history dir;
            conf = calculateConfidence pc vc str (length history)
        in Some \<lparr> direction = dir, strength = str, duration = dur,
                  priceChange = toFixed2 pc, volumeChange = toFixed2 vc,
                  sma20 = s20, sma50 = s50, isReversal = rev,
                  confidence = toFixed2 conf \<rparr>)"

section \<open>Market data service: ingestion and the 24h change\<close>

text \<open>The constructor's \<open>isTest\<close> flag fixes the update interval (ms) and the history length.\<close>

definition updateInterval :: "bool \<Rightarrow> int" where
  "updateInterval isTest = (if isTest then 10 * 1000 else 60 * 1000)"

definition historyLength :: "bool \<Rightarrow> nat" where
  "historyLength isTest = (if isTest then 10 else 24 * 60)"

text \<open>What awaiting a feed call gives \<open>updatePrice\<close>: the call threw, or it returned
  \<open>null\<close> (the code tests for it), or it returned a number.\<close>

datatype fetched = Threw | Null | Num jsnum

text \<open>The two guards of \<open>updatePrice\<close> that throw \<open>Invalid price received\<close> and
  \<open>Invalid volume received\<close>: \<open>x === null || isNaN(x)\<close>; a rejected promise throws as well.\<close>

fun validSample :: "fetched \<Rightarrow> jsnum option" where
  "validSample Threw = None"
| "validSample Null = None"
| "validSample (Num x) = (if isNaN x then None else Some x)"

text \<open>The debounce test \<open>now - data.lastUpdated < this.updateInterval * 0.9\<close>.\<close>

definition tooSoon :: "bool \<Rightarrow> int \<Rightarrow> MarketData \<Rightarrow> bool" where
  "tooSoon isTest now data =
     js_lt (Fin (of_int (now - lastUpdated data)))
           (fl_mul (Fin (of_int (updateInterval isTest))) (lit (9 / 10)))"

text \<open>
  \<open>updatePrice\<close>, with the clock \<open>now\<close> and the two awaited feed results as arguments.
  The \<open>catch\<close> block increments \<open>errors\<close> on the stored object; an update that comes
  before 0.9 of the interval has passed returns without any change.
\<close>

definition updatePrice :: "bool \<Rightarrow> int \<Rightarrow> fetched \<Rightarrow> fetched \<Rightarrow> market \<Rightarrow> string \<Rightarrow> market" where
  "updatePrice isTest now fp fv md tokenMint =
     (case md tokenMint of
        None \<Rightarrow> md
      | Some data \<Rightarrow>
         (case (validSample fp, validSample fv) of
            (Some cp, Some vol) \<Rightarrow>
              if tooSoon isTest now data
              then md
              else
                let vch = fl_mul (fl_div (fl_sub vol (currentVolume24h data))
                                         (currentVolume24h data)) (Fin 100);
                    pushed = priceHistory data @ [\<lparr> timestamp = now, price = cp, volume24h = vol \<rparr>];
                    kept = (if length pushed > historyLength isTest
                            then slice_last (historyLength isTest) pushed else pushed)
                in md(tokenMint \<mapsto> data\<lparr> priceHistory := kept,
                                          currentPrice := cp,
                                          currentVolume24h := vol,
                                          volumeChange24h := toFixed2 vch,
                                          lastUpdated := now,
                                          updateCount := updateCount data + 1,
                                          errors := 0 \<rparr>)
          | _ \<Rightarrow> md(tokenMint \<mapsto> data\<lparr> errors := errors data + 1 \<rparr>)))"

text \<open>\<open>get24hChange\<close>: \<open>filter\<close> builds a new array, \<open>sort\<close> is stable, \<open>[0]\<close> of an empty
  array is \<open>undefined\<close>.\<close>

definition get24hChange :: "int \<Rightarrow> market \<Rightarrow> string \<Rightarrow> jsnum option" where
  "get24hChange now md tokenMint =
     (case md tokenMint of
        None \<Rightarrow> None
      | Some data \<Rightarrow>
          if length (priceHistory data) < 2 then None
          else
            let oneDayAgo = now - 24 * 60 * 60 * 1000 in
            (case sort_key timestamp (filter (\<lambda>point. timestamp point \<ge> oneDayAgo) (priceHistory data)) of
               [] \<Rightarrow> None
             | oldestPoint # _ \<Rightarrow>
                 Some (toFixed2 (fl_mul (fl_div (fl_sub (currentPrice data) (price oldestPoint))
                                                (price oldestPoint)) (Fin 100)))))"

section \<open>Trading strategy\<close>

record Position =
  tokenMint_pos :: string
  entryPrice :: jsnum
  amount :: jsnum
  stopLoss :: jsnum
  takeProfit :: jsnum
  timestamp_pos :: int
  initialCapital_pos :: jsnum

datatype SignalType = ENTRY | EXIT

text \<open>The \<open>reason\<close> of a signal is a template string; the model keeps which template
  it is and the numbers printed into it.\<close>

datatype reason =
    BullishTrend jsnum jsnum
  | StopLossTriggered jsnum
  | TakeProfitTriggered jsnum
  | TrendReversalInProfit jsnum

record TradeSignal =
  type_sig :: SignalType
  tokenMint_sig :: string
  price_sig :: jsnum
  confidence_sig :: jsnum
  reason_sig :: reason

record TradeStats =
  totalTrades :: nat
  winningTrades :: nat
  totalProfit :: jsnum
  currentCapital_stats :: jsnum
  maxDrawdown :: jsnum

text \<open>The mutable fields of \<open>TradingStrategy\<close>. The \<open>Map\<close> of positions is an
  association list in insertion order, one entry per key.\<close>

record strategy =
  positions :: "(string \<times> Position) list"
  initialCapital :: jsnum
  currentCapital :: jsnum
  stats :: TradeStats
  consecutiveLosses :: nat

definition initial_strategy :: strategy where
  "initial_strategy =
     \<lparr> positions = [], initialCapital = Fin 20, currentCapital = Fin 20,
       stats = \<lparr> totalTrades = 0, winningTrades = 0, totalProfit = Fin 0,
                 currentCapital_stats = Fin 20, maxDrawdown = Fin 0 \<rparr>,
       consecutiveLosses = 0 \<rparr>"

definition minConfidence :: jsnum where "minConfidence = Fin 50"
definition minTrendStrength_strategy :: jsnum where "minTrendStrength_strategy = Fin 3"
definition stopLossPercent :: jsnum where "stopLossPercent = Fin 1"
definition takeProfitPercent :: jsnum where "takeProfitPercent = Fin 2"
definition maxPositions :: nat where "maxPositions = 3"
definition positionSize :: jsnum where "positionSize = Fin (3 / 10)"
definition minVolume :: jsnum where "minVolume = Fin 50000"
definition consecutiveLossLimit :: nat where "consecutiveLossLimit = 5"

text \<open>The feed collaborator: what the \<open>i\<close>-th awaited call for a token gives, \<open>None\<close>
  when it throws (the declared result type is \<open>number\<close>).\<close>

record feed =
  getTokenPrice :: "string \<Rightarrow> nat \<Rightarrow> jsnum option"
  getTokenVolume :: "string \<Rightarrow> nat \<Rightarrow> jsnum option"

text \<open>
  The retry loop
  \<^verbatim>\<open>for (let i = 0; i < 3; i++) { try { x = await get(); if (x > 0) break; } catch (e) { ... } }\<close>
  with \<open>n\<close> iterations left, the next attempt \<open>i\<close> and the current value \<open>x\<close>.
\<close>

fun retryLoop :: "nat \<Rightarrow> (nat \<Rightarrow> jsnum option) \<Rightarrow> nat \<Rightarrow> jsnum \<Rightarrow> jsnum" where
  "retryLoop 0 get i x = x"
| "retryLoop (Suc n) get i x =
     (case get i of
        None \<Rightarrow> retryLoop n get (Suc i) x
      | Some v \<Rightarrow> if js_gt v (Fin 0) then v else retryLoop n get (Suc i) v)"

definition withRetry :: "(nat \<Rightarrow> jsnum option) \<Rightarrow> jsnum" where
  "withRetry get = retryLoop 3 get 0 (Fin 0)"

definition checkEntryConditions :: "feed \<Rightarrow> strategy \<Rightarrow> string \<Rightarrow> TrendAnalysis \<Rightarrow> TradeSignal option" where
  "checkEntryConditions fd s tokenMint trend =
     (if length (positions s) \<ge> maxPositions then None
      else if js_lt (currentCapital s) (Fin 5) then None
      else
        let volume = withRetry (getTokenVolume fd tokenMint) in
        if js_lt volume minVolume then None
        else if js_lt (confidence trend) minConfidence \<or>
                js_lt (strength trend) minTrendStrength_strategy then None
        else if isReversal trend then None
        else if direction trend = BULLISH then
          let cp = withRetry (getTokenPrice fd tokenMint) in
          if js_eq cp (Fin 0) then None
          else
            let diff = js_sub (sma20 trend) (sma50 trend) in
            if js_gt (js_abs diff) (js_mul cp (Fin (2 / 100))) then None
            else Some \<lparr> type_sig = ENTRY, tokenMint_sig = tokenMint, price_sig = cp,
                        confidence_sig = confidence trend,
                        reason_sig = BullishTrend (strength trend) (confidence trend) \<rparr>
        else None)"

text \<open>The two quantities of the exit check, as the source computes them.\<close>

definition priceChangePct :: "jsnum \<Rightarrow> Position \<Rightarrow> jsnum" where
  "priceChangePct cp position =
     js_mul (js_div (js_sub cp (entryPrice position)) (entryPrice position)) (Fin 100)"

definition dynamicTakeProfit :: "TrendAnalysis \<Rightarrow> jsnum" where
  "dynamicTakeProfit trend =
     js_min (js_mul takeProfitPercent (js_add (Fin 1) (js_div (strength trend) (Fin 100))))
            (js_mul takeProfitPercent (Fin 2))"

definition checkExitConditions :: "feed \<Rightarrow> Position \<Rightarrow> TrendAnalysis \<Rightarrow> TradeSignal option" where
  "checkExitConditions fd position trend =
     (let cp = withRetry (getTokenPrice fd (tokenMint_pos position)) in
      if js_eq cp (Fin 0) then None
      else
        let pc = priceChangePct cp position;
            dtp = dynamicTakeProfit trend
        in if js_le pc (js_neg stopLossPercent)
           then Some \<lparr> type_sig = EXIT, tokenMint_sig = tokenMint_pos position, price_sig = cp,
                       confidence_sig = Fin 100, reason_sig = StopLossTriggered pc \<rparr>
           else if js_ge pc dtp
           then Some \<lparr> type_sig = EXIT, tokenMint_sig = tokenMint_pos position, price_sig = cp,
                       confidence_sig = Fin 100, reason_sig = TakeProfitTriggered pc \<rparr>
           else if (isReversal trend \<or> direction trend = BEARISH) \<and> js_gt pc (Fin 0)
           then Some \<lparr> type_sig = EXIT, tokenMint_sig = tokenMint_pos position, price_sig = cp,
                       confidence_sig = confidence trend, reason_sig = TrendReversalInProfit pc \<rparr>
           else None)"

definition analyzeTradeOpportunity :: "market \<Rightarrow> feed \<Rightarrow> strategy \<Rightarrow> string \<Rightarrow> TradeSignal option" where
  "analyzeTradeOpportunity md fd s tokenMint =
     (case analyzeTrend md tokenMint of
        None \<Rightarrow> None
      | Some trend \<Rightarrow>
          (case map_of (positions s) tokenMint of
             Some position \<Rightarrow> checkExitConditions fd position trend
           | None \<Rightarrow>
               if consecutiveLosses s \<ge> consecutiveLossLimit then None
               else checkEntryConditions fd s tokenMint trend))"

definition positionAmount :: "strategy \<Rightarrow> jsnum" where
  "positionAmount s =
     js_mul (js_mul (currentCapital s) positionSize)
            (js_sub (Fin 1) (js_min (js_mul (js_of_nat (consecutiveLosses s)) (Fin (1 / 10)))
                                    (Fin (1 / 2))))"

text \<open>\<open>executeEntry\<close>, with the clock as argument; the result is the returned boolean
  and the state after the call.\<close>

definition executeEntry :: "int \<Rightarrow> strategy \<Rightarrow> TradeSignal \<Rightarrow> bool \<times> strategy" where
  "executeEntry now s signal =
     (let pa = positionAmount s;
          position = \<lparr> tokenMint_pos = tokenMint_sig signal,
                       entryPrice = price_sig signal,
                       amount = js_div pa (price_sig signal),
                       stopLoss = js_mul (price_sig signal)
                                    (js_sub (Fin 1) (js_div stopLossPercent (Fin 100))),
                       takeProfit = js_mul (price_sig signal)
                                      (js_add (Fin 1) (js_div takeProfitPercent (Fin 100))),
                       timestamp_pos = now,
                       initialCapital_pos = pa \<rparr>
      in (True, s\<lparr> positions := AList.update (tokenMint_sig signal) position (positions s),
                   currentCapital := js_sub (currentCapital s) pa \<rparr>))"

definition profitOf :: "TradeSignal \<Rightarrow> Position \<Rightarrow> jsnum" where
  "profitOf signal position =
     js_mul (js_sub (price_sig signal) (entryPrice position)) (amount position)"

definition drawdownPct :: "jsnum \<Rightarrow> jsnum \<Rightarrow> jsnum" where
  "drawdownPct capital initial = js_mul (js_div (js_sub capital initial) initial) (Fin 100)"

definition executeExit :: "strategy \<Rightarrow> TradeSignal \<Rightarrow> bool \<times> strategy" where
  "executeExit s signal =
     (case map_of (positions s) (tokenMint_sig signal) of
        None \<Rightarrow> (False, s)
      | Some position \<Rightarrow>
          let profit = profitOf signal position;
              capital = js_add (currentCapital s) (js_add (initialCapital_pos position) profit);
              won = js_gt profit (Fin 0);
              st = stats s
          in (True,
              s\<lparr> currentCapital := capital,
                 stats := \<lparr> totalTrades = totalTrades st + 1,
                            winningTrades = (if won then winningTrades st + 1 else winningTrades st),
                            totalProfit = js_add (totalProfit st) profit,
                            currentCapital_stats = capital,
                            maxDrawdown = js_min (maxDrawdown st)
                                            (drawdownPct capital (initialCapital s)) \<rparr>,
                 consecutiveLosses := (if won then 0 else consecutiveLosses s + 1),
                 positions := AList.delete (tokenMint_sig signal) (positions s) \<rparr>))"

text \<open>One turn of the trading loop of the strategy's test driver: ask for a signal and
  execute it.\<close>

definition tick :: "int \<Rightarrow> market \<Rightarrow> feed \<Rightarrow> strategy \<Rightarrow> string \<Rightarrow> strategy" where
  "tick now md fd s tokenMint =
     (case analyzeTradeOpportunity md fd s tokenMint of
        None \<Rightarrow> s
      | Some signal \<Rightarrow>
          (case type_sig signal of
             ENTRY \<Rightarrow> snd (executeEntry now s signal)
           | EXIT \<Rightarrow> snd (executeExit s signal)))"

section \<open>Runs of the strategy\<close>

text \<open>The trading loop run over a list of turns, each with its clock, the market data and
  feed of that moment, and the instrument it looks at.\<close>

definition run_ticks :: "strategy \<Rightarrow> (int \<times> market \<times> feed \<times> string) list \<Rightarrow> strategy" where
  "run_ticks s ts = foldl (\<lambda>s' (now, md, fd, tokenMint). tick now md fd s' tokenMint) s ts"

text \<open>The number of open positions of an instrument, and the shape of the position store
  that the \<open>Map\<close> of the source has by construction: one entry per key, each position
  stored under its own token.\<close>

definition openCount :: "strategy \<Rightarrow> string \<Rightarrow> nat" where
  "openCount s tokenMint = length (filter (\<lambda>kp. fst kp = tokenMint) (positions s))"

definition wf_positions :: "strategy \<Rightarrow> bool" where
  "wf_positions s =
     (distinct (map fst (positions s)) \<and>
      list_all (\<lambda>kp. tokenMint_pos (snd kp) = fst kp) (positions s))"

text \<open>Calls of the two public settlement operations, in any order.\<close>

datatype event = Entry int TradeSignal | Exit TradeSignal

fun apply_event :: "strategy \<Rightarrow> event \<Rightarrow> strategy" where
  "apply_event s (Entry now signal) = snd (executeEntry now s signal)"
| "apply_event s (Exit signal) = snd (executeExit s signal)"

text \<open>An exit that settles a position, with a profit (\<open>profit > 0\<close>) or without.\<close>

fun winningExit :: "strategy \<Rightarrow> event \<Rightarrow> bool" where
  "winningExit s (Entry now signal) = False"
| "winningExit s (Exit signal) =
     (case map_of (positions s) (tokenMint_sig signal) of
        None \<Rightarrow> False
      | Some position \<Rightarrow> js_gt (profitOf signal position) (Fin 0))"

fun losingExit :: "strategy \<Rightarrow> event \<Rightarrow> bool" where
  "losingExit s (Entry now signal) = False"
| "losingExit s (Exit signal) =
     (case map_of (positions s) (tokenMint_sig signal) of
        None \<Rightarrow> False
      | Some position \<Rightarrow> \<not> js_gt (profitOf signal position) (Fin 0))"

fun noWin :: "strategy \<Rightarrow> event list \<Rightarrow> bool" where
  "noWin s [] = True"
| "noWin s (e # es) = (\<not> winningExit s e \<and> noWin (apply_event s e) es)"

fun losses :: "strategy \<Rightarrow> event list \<Rightarrow> nat" where
  "losses s [] = 0"
| "losses s (e # es) = (if losingExit s e then 1 else 0) + losses (apply_event s e) es"

definition run_events :: "strategy \<Rightarrow> event list \<Rightarrow> strategy" where
  "run_events s es = foldl apply_event s es"

text \<open>The arithmetic mean of a list of numbers, as the specification has it for the moving
  average, in the arithmetic of the program: the sum, taken from left to right, divided
  by the count.\<close>

definition arithmetic_mean :: "jsnum list \<Rightarrow> jsnum" where
  "arithmetic_mean xs = fl_div (foldl fl_add (Fin 0) xs) (js_of_nat (length xs))"



section \<open>Example inputs\<close>

text \<open>A position bought for 6 at price 100, a strategy state that holds it, a feed that
  answers every call with the same price and volume, and a market with a two-point
  history.\<close>

definition sol_position :: Position where
  "sol_position =
     \<lparr> tokenMint_pos = ''SOL'', entryPrice = Fin 100, amount = Fin (6 / 100),
       stopLoss = Fin 99, takeProfit = Fin 102, timestamp_pos = 0,
       initialCapital_pos = Fin 6 \<rparr>"

definition sol_open :: strategy where
  "sol_open = initial_strategy\<lparr> positions := [(''SOL'', sol_position)], currentCapital := Fin 14 \<rparr>"

definition const_feed :: "jsnum \<Rightarrow> jsnum \<Rightarrow> feed" where
  "const_feed p v = \<lparr> getTokenPrice = (\<lambda>tokenMint i. Some p),
                      getTokenVolume = (\<lambda>tokenMint i. Some v) \<rparr>"

definition sol_data :: MarketData where
  "sol_data =
     \<lparr> symbol = ''SOL'', currentPrice = Fin 101, currentVolume24h = Fin 60000,
       priceHistory = [\<lparr> timestamp = 0, price = Fin 100, volume24h = Fin 60000 \<rparr>,
                       \<lparr> timestamp = 60000, price = Fin 101, volume24h = Fin 60000 \<rparr>],
       lastUpdated = 60000, updateCount = 2, errors = 0, volumeChange24h = Fin 0 \<rparr>"

definition sol_market :: market where
  "sol_market = Map.empty(''SOL'' \<mapsto> sol_data)"

definition exit_signal :: "jsnum \<Rightarrow> TradeSignal" where
  "exit_signal p =
     \<lparr> type_sig = EXIT, tokenMint_sig = ''SOL'', price_sig = p, confidence_sig = Fin 100,
       reason_sig = StopLossTriggered (Fin 0) \<rparr>"

definition entry_signal :: "jsnum \<Rightarrow> TradeSignal" where
  "entry_signal p =
     \<lparr> type_sig = ENTRY, tokenMint_sig = ''SOL'', price_sig = p, confidence_sig = Fin 72,
       reason_sig = BullishTrend (Fin 100) (Fin 72) \<rparr>"

text \<open>Two open positions after four losses in a row.\<close>

definition bonk_position :: Position where
  "bonk_position = sol_position\<lparr> tokenMint_pos := ''BONK'' \<rparr>"

definition losing_streak :: strategy where
  "losing_streak =
     sol_open\<lparr> positions := [(''SOL'', sol_position), (''BONK'', bonk_position)],
               consecutiveLosses := 4 \<rparr>"


definition fresh_market :: market where
  "fresh_market =
     Map.empty(''SOL'' \<mapsto>
       \<lparr> symbol = ''SOL'', currentPrice = Fin 100, currentVolume24h = Fin 60000,
         priceHistory = [\<lparr> timestamp = 1000, price = Fin 100, volume24h = Fin 60000 \<rparr>],
         lastUpdated = 1000, updateCount = 1, errors = 0, volumeChange24h = Fin 0 \<rparr>)"


section \<open>Properties of rounding\<close>


















section \<open>Settlement of an exit\<close>

lemma filter_key_delete:
  "filter (\<lambda>kp. fst kp = k) (AList.delete k al) = []"
  by (induction al) auto

lemma executeExit_Some:
  assumes "map_of (positions s) (tokenMint_sig signal) = Some position"
  shows "executeExit s signal =
     (True,
      s\<lparr> currentCapital := js_add (currentCapital s)
                              (js_add (initialCapital_pos position) (profitOf signal position)),
         stats := \<lparr> totalTrades = totalTrades (stats s) + 1,
                    winningTrades = (if js_gt (profitOf signal position) (Fin 0)
                                     then winningTrades (stats s) + 1 else winningTrades (stats s)),
                    totalProfit = js_add (totalProfit (stats s)) (profitOf signal position),
                    currentCapital_stats = js_add (currentCapital s)
                              (js_add (initialCapital_pos position) (profitOf signal position)),
                    maxDrawdown = js_min (maxDrawdown (stats s))
                       (drawdownPct (js_add (currentCapital s)
                              (js_add (initialCapital_pos position) (profitOf signal position)))
                          (initialCapital s)) \<rparr>,
         consecutiveLosses := (if js_gt (profitOf signal position) (Fin 0) then 0
                               else consecutiveLosses s + 1),
         positions := AList.delete (tokenMint_sig signal) (positions s) \<rparr>)"
  using assms by (simp add: executeExit_def Let_def)

lemma executeExit_None:
  assumes "map_of (positions s) (tokenMint_sig signal) = None"
  shows "executeExit s signal = (False, s)"
  using assms by (simp add: executeExit_def)

text \<open>
  C1. For a position open under the signal's instrument, \<open>executeExit\<close> succeeds, with
  \<open>profit = (exitPrice - entryPrice) * quantity\<close>: the new capital is the previous capital
  plus the committed capital plus the profit; \<open>totalTrades\<close> is incremented; a profit
  greater than 0 increments \<open>winningTrades\<close> and resets \<open>consecutiveLosses\<close> to 0, any other
  profit increments \<open>consecutiveLosses\<close>; \<open>maxDrawdown\<close> becomes the minimum of its previous
  value and \<open>(currentCapital - initialCapital) / initialCapital * 100\<close> for the new capital;
  and the instrument has no open position afterwards.
\<close>

theorem executeExit_settles:
  assumes "map_of (positions s) (tokenMint_sig signal) = Some position"
  shows "fst (executeExit s signal) = True \<and>
     currentCapital (snd (executeExit s signal)) =
       js_add (currentCapital s)
         (js_add (initialCapital_pos position)
            (js_mul (js_sub (price_sig signal) (entryPrice position)) (amount position))) \<and>
     totalTrades (stats (snd (executeExit s signal))) = totalTrades (stats s) + 1 \<and>
     (if js_gt (js_mul (js_sub (price_sig signal) (entryPrice position)) (amount position)) (Fin 0)
      then winningTrades (stats (snd (executeExit s signal))) = winningTrades (stats s) + 1 \<and>
           consecutiveLosses (snd (executeExit s signal)) = 0
      else winningTrades (stats (snd (executeExit s signal))) = winningTrades (stats s) \<and>
           consecutiveLosses (snd (executeExit s signal)) = consecutiveLosses s + 1) \<and>
     maxDrawdown (stats (snd (executeExit s signal))) =
       js_min (maxDrawdown (stats s))
         (js_mul (js_div (js_sub (currentCapital (snd (executeExit s signal))) (initialCapital s))
                         (initialCapital s)) (Fin 100)) \<and>
     map_of (positions (snd (executeExit s signal))) (tokenMint_sig signal) = None \<and>
     openCount (snd (executeExit s signal)) (tokenMint_sig signal) = 0"
  by (simp add: executeExit_Some [OF assms] profitOf_def drawdownPct_def openCount_def
        AList.delete_conv' filter_key_delete)

text \<open>The theorem at a position bought for 6 at price 100 and sold at 110: the capital
  goes from 14 to 20.6.\<close>

theorem executeExit_settles_witness:
  "map_of (positions sol_open) (tokenMint_sig (exit_signal (Fin 110))) = Some sol_position \<and>
   currentCapital (snd (executeExit sol_open (exit_signal (Fin 110)))) = Fin (103 / 5) \<and>
   consecutiveLosses (snd (executeExit sol_open (exit_signal (Fin 110)))) = 0 \<and>
   map_of (positions (snd (executeExit sol_open (exit_signal (Fin 110))))) ''SOL'' = None"
  using executeExit_settles [of sol_open "exit_signal (Fin 110)" sol_position]
  by (simp add: sol_open_def sol_position_def exit_signal_def initial_strategy_def js_sub_def
        js_gt_def)

section \<open>One position per instrument\<close>

lemma checkExit_EXIT:
  assumes "checkExitConditions fd position trend = Some sg"
  shows "type_sig sg = EXIT \<and> tokenMint_sig sg = tokenMint_pos position"
  using assms by (auto simp: checkExitConditions_def Let_def split: if_splits)

lemma list_all_update:
  "list_all P al \<Longrightarrow> P (k, v) \<Longrightarrow> list_all P (AList.update k v al)"
  by (induction al) auto

lemma list_all_delete:
  "list_all P al \<Longrightarrow> list_all P (AList.delete k al)"
  by (induction al) auto

lemma filter_key_distinct:
  "distinct (map fst al) \<Longrightarrow> length (filter (\<lambda>kp. fst kp = k) al) \<le> 1"
proof (induction al)
  case Nil
  then show ?case by simp
next
  case (Cons a al)
  show ?case
  proof (cases "fst a = k")
    case True
    with Cons.prems have "k \<notin> fst ` set al" by auto
    then have "filter (\<lambda>kp. fst kp = k) al = []"
      by (auto simp: filter_empty_conv)
    with True show ?thesis by simp
  next
    case False
    with Cons show ?thesis by simp
  qed
qed

lemma wf_executeEntry:
  assumes "wf_positions s"
  shows "wf_positions (snd (executeEntry now s signal))"
  using assms
  by (simp add: wf_positions_def executeEntry_def Let_def AList.distinct_update list_all_update)

lemma wf_executeExit:
  assumes "wf_positions s"
  shows "wf_positions (snd (executeExit s signal))"
  using assms
  by (simp add: wf_positions_def executeExit_def Let_def AList.distinct_delete list_all_delete
      split: option.splits)

lemma wf_tick:
  assumes "wf_positions s"
  shows "wf_positions (tick now md fd s tokenMint)"
  using assms
  by (auto simp: tick_def wf_executeEntry wf_executeExit split: option.splits SignalType.splits)

lemma wf_run_ticks:
  assumes "wf_positions s"
  shows "wf_positions (run_ticks s ts)"
  using assms
proof (induction ts arbitrary: s)
  case Nil
  then show ?case by (simp add: run_ticks_def)
next
  case (Cons t ts)
  obtain now md fd tk where t: "t = (now, md, fd, tk)" by (cases t) auto
  have "run_ticks s (t # ts) = run_ticks (tick now md fd s tk) ts"
    by (simp add: run_ticks_def t)
  with Cons wf_tick show ?case by simp
qed

lemma wf_initial: "wf_positions initial_strategy"
  by (simp add: wf_positions_def initial_strategy_def)

lemma openCount_wf:
  assumes "wf_positions s"
  shows "openCount s tokenMint \<le> 1"
proof -
  from assms have "distinct (map fst (positions s))" by (simp add: wf_positions_def)
  from filter_key_distinct [OF this] show ?thesis by (simp add: openCount_def)
qed

lemma decide_open_position:
  assumes "map_of (positions s) tokenMint = Some p"
  shows "analyzeTradeOpportunity md fd s tokenMint = None \<or>
         (\<exists>sg. analyzeTradeOpportunity md fd s tokenMint = Some sg \<and> type_sig sg = EXIT \<and> tokenMint_sig sg = tokenMint_pos p)"
  using assms
  by (cases "analyzeTrend md tokenMint"; cases "checkExitConditions fd p (the (analyzeTrend md tokenMint))")
     (auto simp: analyzeTradeOpportunity_def dest: checkExit_EXIT)

lemma wf_key:
  assumes "wf_positions s" "map_of (positions s) k = Some p"
  shows "tokenMint_pos p = k"
  using assms by (auto simp: wf_positions_def list_all_iff dest!: map_of_SomeD)

lemma tick_keeps_or_closes:
  assumes "wf_positions s" and "map_of (positions s) tokenMint = Some p"
  shows "map_of (positions (tick now md fd s tk)) tokenMint = Some p \<or>
         map_of (positions (tick now md fd s tk)) tokenMint = None"
proof (cases "analyzeTradeOpportunity md fd s tk")
  case None
  then show ?thesis using assms by (simp add: tick_def)
next
  case (Some sg)
  show ?thesis
  proof (cases "map_of (positions s) tk")
    case None
    note noPos = this
    show ?thesis
    proof (cases "type_sig sg")
      case ENTRY
      have "tokenMint_sig sg = tk"
        using Some noPos
        by (auto simp: analyzeTradeOpportunity_def checkEntryConditions_def Let_def
            split: option.splits if_splits)
      moreover have "tk \<noteq> tokenMint" using noPos assms(2) by auto
      ultimately show ?thesis using Some ENTRY assms(2)
        by (simp add: tick_def executeEntry_def Let_def AList.update_conv')
    next
      case EXIT
      have False using Some noPos EXIT
        by (auto simp: analyzeTradeOpportunity_def checkEntryConditions_def Let_def
            split: option.splits if_splits)
      then show ?thesis ..
    qed
  next
    case (Some q)
    from decide_open_position [OF Some, of md fd] \<open>analyzeTradeOpportunity md fd s tk = Some sg\<close>
    have sg: "type_sig sg = EXIT" "tokenMint_sig sg = tokenMint_pos q" by auto
    have "tokenMint_pos q = tk" using wf_key [OF assms(1) Some] .
    with sg \<open>analyzeTradeOpportunity md fd s tk = Some sg\<close> Some assms(2) show ?thesis
      by (cases "tk = tokenMint") (auto simp: tick_def executeExit_def Let_def AList.delete_conv')
  qed
qed


text \<open>
  C2. Along every run of the trading loop from a well-formed state (the initial state is
  one), an instrument has at most one open position; and while a position is open for an
  instrument, \<open>analyzeTradeOpportunity\<close> for it returns no signal or an EXIT signal for
  that instrument, never an ENTRY; so a turn of the loop, for whatever instrument, leaves
  the open position as it is or closes it, and never opens another in its place.
\<close>

theorem one_position_per_instrument:
  assumes "wf_positions s0"
    and "map_of (positions (run_ticks s0 ts)) tokenMint = Some p"
  shows "openCount (run_ticks s0 ts) tokenMint \<le> 1 \<and>
     (analyzeTradeOpportunity md fd (run_ticks s0 ts) tokenMint = None \<or>
      (\<exists>sg. analyzeTradeOpportunity md fd (run_ticks s0 ts) tokenMint = Some sg \<and>
            type_sig sg = EXIT \<and> tokenMint_sig sg = tokenMint)) \<and>
     (map_of (positions (tick now md fd (run_ticks s0 ts) tk)) tokenMint = Some p \<or>
      map_of (positions (tick now md fd (run_ticks s0 ts) tk)) tokenMint = None)"
proof -
  have wf: "wf_positions (run_ticks s0 ts)"
    using assms(1) by (rule wf_run_ticks)
  have key: "tokenMint_pos p = tokenMint"
    using wf assms(2) by (rule wf_key)
  show ?thesis
    using openCount_wf [OF wf, of tokenMint] decide_open_position [OF assms(2), of md fd]
      tick_keeps_or_closes [OF wf assms(2), of now md fd tk] key
    by simp
qed

text \<open>The trend analysis of the two-point market, as the analyzer computes it.\<close>

lemma sol_market_trend:
  "analyzeTrend sol_market ''SOL'' =
     Some \<lparr> direction = SIDEWAYS, strength = Fin (7881299347898367 / 562949953421312),
            duration = 60000, priceChange = Fin 1, volumeChange = Fin 0,
            sma20 = Fin (201 / 2), sma50 = Fin (201 / 2), isReversal = False,
            confidence = Fin (2308094809027379 / 281474976710656) \<rparr>"
  by code_simp

text \<open>The theorem after one turn that gives no signal (price 101 against the entry at 100);
  at price 98 the next decision is the stop-loss exit.\<close>

theorem one_position_per_instrument_witness:
  "wf_positions sol_open \<and>
   map_of (positions (run_ticks sol_open [(60000, sol_market, const_feed (Fin 101) (Fin 60000), ''SOL'')]))
      ''SOL'' = Some sol_position \<and>
   (\<exists>sg. analyzeTradeOpportunity sol_market (const_feed (Fin 98) (Fin 60000))
            (run_ticks sol_open [(60000, sol_market, const_feed (Fin 101) (Fin 60000), ''SOL'')]) ''SOL''
            = Some sg \<and> type_sig sg = EXIT \<and> tokenMint_sig sg = ''SOL'')"
proof -
  have h1: "wf_positions sol_open"
    by code_simp
  have p: "map_of (positions sol_open) ''SOL'' = Some sol_position"
    by code_simp
  have c1: "checkExitConditions (const_feed (Fin 101) (Fin 60000)) sol_position
              \<lparr> direction = SIDEWAYS, strength = Fin (7881299347898367 / 562949953421312),
                duration = 60000, priceChange = Fin 1, volumeChange = Fin 0,
                sma20 = Fin (201 / 2), sma50 = Fin (201 / 2), isReversal = False,
                confidence = Fin (2308094809027379 / 281474976710656) \<rparr> = None"
    by code_simp
  have c2: "checkExitConditions (const_feed (Fin 98) (Fin 60000)) sol_position
              \<lparr> direction = SIDEWAYS, strength = Fin (7881299347898367 / 562949953421312),
                duration = 60000, priceChange = Fin 1, volumeChange = Fin 0,
                sma20 = Fin (201 / 2), sma50 = Fin (201 / 2), isReversal = False,
                confidence = Fin (2308094809027379 / 281474976710656) \<rparr> \<noteq> None"
    by code_simp
  have r: "run_ticks sol_open [(60000, sol_market, const_feed (Fin 101) (Fin 60000), ''SOL'')] =
             sol_open"
    by (simp add: run_ticks_def tick_def analyzeTradeOpportunity_def sol_market_trend p c1)
  have h2: "map_of (positions (run_ticks sol_open
        [(60000, sol_market, const_feed (Fin 101) (Fin 60000), ''SOL'')])) ''SOL'' = Some sol_position"
    by (simp only: r p)
  have h3: "analyzeTradeOpportunity sol_market (const_feed (Fin 98) (Fin 60000))
            (run_ticks sol_open [(60000, sol_market, const_feed (Fin 101) (Fin 60000), ''SOL'')]) ''SOL'' \<noteq> None"
    using c2 by (simp add: r analyzeTradeOpportunity_def sol_market_trend p)
  from one_position_per_instrument [OF h1 h2, of sol_market "const_feed (Fin 98) (Fin 60000)" 0 "''SOL''"]
    h1 h2 h3
  show ?thesis by simp
qed

section \<open>The consecutive-loss throttle\<close>

lemma consecutiveLosses_executeEntry:
  "consecutiveLosses (snd (executeEntry now s signal)) = consecutiveLosses s"
  by (simp add: executeEntry_def Let_def)

lemma consecutiveLosses_step:
  assumes "\<not> winningExit s e"
  shows "consecutiveLosses (apply_event s e) = consecutiveLosses s + (if losingExit s e then 1 else 0)"
proof (cases e)
  case (Entry now signal)
  then show ?thesis by (simp add: consecutiveLosses_executeEntry)
next
  case (Exit signal)
  show ?thesis
  proof (cases "map_of (positions s) (tokenMint_sig signal)")
    case None
    with Exit show ?thesis by (simp add: executeExit_None)
  next
    case (Some position)
    with Exit assms show ?thesis by (simp add: executeExit_Some)
  qed
qed

lemma consecutiveLosses_run:
  assumes "noWin s es"
  shows "consecutiveLosses (run_events s es) = consecutiveLosses s + losses s es"
  using assms
proof (induction es arbitrary: s)
  case Nil
  then show ?case by (simp add: run_events_def)
next
  case (Cons e es)
  have "run_events s (e # es) = run_events (apply_event s e) es"
    by (simp add: run_events_def)
  with Cons consecutiveLosses_step [of s e] show ?case by simp
qed

lemma decide_throttled:
  assumes "consecutiveLossLimit \<le> consecutiveLosses s"
    and "map_of (positions s) tokenMint = None"
  shows "analyzeTradeOpportunity md fd s tokenMint = None"
  using assms by (simp add: analyzeTradeOpportunity_def split: option.splits)

text \<open>
  C3. After any run of entries and exits in which no exit was a win and whose losing
  exits bring \<open>consecutiveLosses\<close> to the limit of 5 or beyond (so after 5 losing exits in
  a row, or in any state where the counter is at the limit already),
  \<open>analyzeTradeOpportunity\<close> for an instrument with no open position returns no signal,
  whatever the market data and the feed are; and an exit with a profit greater than 0
  sets the counter back to 0.
\<close>

theorem consecutive_loss_throttle:
  assumes "noWin s es"
    and "consecutiveLossLimit \<le> consecutiveLosses s + losses s es"
    and "map_of (positions (run_events s es)) tokenMint = None"
  shows "analyzeTradeOpportunity md fd (run_events s es) tokenMint = None \<and>
         (winningExit (run_events s es) e \<longrightarrow> consecutiveLosses (apply_event (run_events s es) e) = 0)"
proof -
  have "consecutiveLossLimit \<le> consecutiveLosses (run_events s es)"
    using assms(1,2) by (simp add: consecutiveLosses_run)
  then have "analyzeTradeOpportunity md fd (run_events s es) tokenMint = None"
    using assms(3) by (rule decide_throttled)
  moreover have "winningExit t e \<longrightarrow> consecutiveLosses (apply_event t e) = 0" for t
    by (cases e) (auto simp: executeExit_Some split: option.splits)
  ultimately show ?thesis by simp
qed

text \<open>The theorem after a fifth loss in a row (the position bought at 100 is sold at 98),
  followed by a win on the other open position.\<close>

theorem consecutive_loss_throttle_witness:
  "noWin losing_streak [Exit (exit_signal (Fin 98))] \<and>
   consecutiveLossLimit \<le>
     consecutiveLosses losing_streak + losses losing_streak [Exit (exit_signal (Fin 98))] \<and>
   map_of (positions (run_events losing_streak [Exit (exit_signal (Fin 98))])) ''SOL'' = None \<and>
   winningExit (run_events losing_streak [Exit (exit_signal (Fin 98))])
     (Exit ((exit_signal (Fin 110))\<lparr> tokenMint_sig := ''BONK'' \<rparr>)) \<and>
   analyzeTradeOpportunity sol_market (const_feed (Fin 101) (Fin 60000))
     (run_events losing_streak [Exit (exit_signal (Fin 98))]) ''SOL'' = None \<and>
   consecutiveLosses (apply_event (run_events losing_streak [Exit (exit_signal (Fin 98))])
     (Exit ((exit_signal (Fin 110))\<lparr> tokenMint_sig := ''BONK'' \<rparr>))) = 0"
proof -
  have h1: "noWin losing_streak [Exit (exit_signal (Fin 98))]"
    by code_simp
  have h2: "consecutiveLossLimit \<le>
     consecutiveLosses losing_streak + losses losing_streak [Exit (exit_signal (Fin 98))]"
    by code_simp
  have h3: "map_of (positions (run_events losing_streak [Exit (exit_signal (Fin 98))])) ''SOL'' = None"
    by code_simp
  have h4: "winningExit (run_events losing_streak [Exit (exit_signal (Fin 98))])
     (Exit ((exit_signal (Fin 110))\<lparr> tokenMint_sig := ''BONK'' \<rparr>))"
    by code_simp
  from consecutive_loss_throttle [OF h1 h2 h3, of sol_market "const_feed (Fin 101) (Fin 60000)"
      "Exit ((exit_signal (Fin 110))\<lparr> tokenMint_sig := ''BONK'' \<rparr>)"] h1 h2 h3 h4
  show ?thesis by simp
qed

section \<open>Opening a position\<close>

lemma js_min_Fin: "js_min (Fin a) (Fin b) = Fin (min a b)"
  by (auto simp: js_min_def)

lemma positionAmount_Fin:
  "positionAmount (s\<lparr> currentCapital := Fin c \<rparr>) =
     Fin (c * (3 / 10) * (1 - min (of_nat (consecutiveLosses s) / 10) (1 / 2)))"
  by (simp add: positionAmount_def positionSize_def js_of_nat_def js_sub_def js_min_Fin)

lemma length_update_present:
  "map_of al k = Some v \<Longrightarrow> length (AList.update k w al) = length al"
  by (induction al) (auto split: if_splits)

text \<open>
  C4 (amended). \<open>executeEntry\<close> computes
  \<open>positionAmount = currentCapital * positionSize * (1 - min(consecutiveLosses * 0.1, 0.5))\<close>,
  stores a position with \<open>amount = positionAmount / price\<close> and committed capital
  \<open>positionAmount\<close>, debits \<open>currentCapital\<close> by \<open>positionAmount\<close>, and returns success in
  every state and for every signal: it has no failure for a non-positive amount.
\<close>

theorem executeEntry_always_succeeds:
  "fst (executeEntry now s signal) = True \<and>
   map_of (positions (snd (executeEntry now s signal))) (tokenMint_sig signal) =
     Some \<lparr> tokenMint_pos = tokenMint_sig signal,
            entryPrice = price_sig signal,
            amount = js_div (positionAmount s) (price_sig signal),
            stopLoss = js_mul (price_sig signal) (js_sub (Fin 1) (js_div (Fin 1) (Fin 100))),
            takeProfit = js_mul (price_sig signal) (js_add (Fin 1) (js_div (Fin 2) (Fin 100))),
            timestamp_pos = now,
            initialCapital_pos = positionAmount s \<rparr> \<and>
   currentCapital (snd (executeEntry now s signal)) = js_sub (currentCapital s) (positionAmount s) \<and>
   positionAmount s =
     js_mul (js_mul (currentCapital s) (Fin (3 / 10)))
       (js_sub (Fin 1) (js_min (js_mul (Fin (of_nat (consecutiveLosses s))) (Fin (1 / 10)))
                               (Fin (1 / 2)))) \<and>
   positionAmount (s\<lparr> currentCapital := Fin c \<rparr>) =
     Fin (c * (3 / 10) * (1 - min (of_nat (consecutiveLosses s) / 10) (1 / 2)))"
  by (simp add: executeEntry_def Let_def AList.update_conv' positionAmount_Fin
        stopLossPercent_def takeProfitPercent_def)
     (simp add: positionAmount_def positionSize_def js_of_nat_def)

text \<open>With no capital left the amount is 0, not positive, and the entry still succeeds
  and stores a position of amount 0.\<close>

theorem executeEntry_InsufficientCapital_counterexample:
  "js_le (positionAmount (initial_strategy\<lparr> currentCapital := Fin 0 \<rparr>)) (Fin 0) \<and>
   fst (executeEntry 0 (initial_strategy\<lparr> currentCapital := Fin 0 \<rparr>) (entry_signal (Fin 100))) = True \<and>
   map_of (positions (snd (executeEntry 0 (initial_strategy\<lparr> currentCapital := Fin 0 \<rparr>)
                              (entry_signal (Fin 100))))) ''SOL'' =
     Some \<lparr> tokenMint_pos = ''SOL'', entryPrice = Fin 100, amount = Fin 0,
            stopLoss = Fin 99, takeProfit = Fin 102, timestamp_pos = 0,
            initialCapital_pos = Fin 0 \<rparr>"
  by code_simp

text \<open>
  C10. \<open>executeEntry\<close> for an instrument that has an open position does not fail: the
  stored position is replaced by the new one (the number of positions stays the same),
  \<open>currentCapital\<close> is debited by the new \<open>positionAmount\<close>, which is computed from the
  current capital alone, and nothing of the replaced position enters the result: it is the
  same whatever position was stored, so its committed capital is not credited back.
\<close>

theorem executeEntry_replaces_open_position:
  assumes "map_of (positions s) (tokenMint_sig signal) = Some old"
  shows "fst (executeEntry now s signal) = True \<and>
     map_of (positions (snd (executeEntry now s signal))) (tokenMint_sig signal) =
       Some \<lparr> tokenMint_pos = tokenMint_sig signal,
              entryPrice = price_sig signal,
              amount = js_div (positionAmount s) (price_sig signal),
              stopLoss = js_mul (price_sig signal) (js_sub (Fin 1) (js_div (Fin 1) (Fin 100))),
              takeProfit = js_mul (price_sig signal) (js_add (Fin 1) (js_div (Fin 2) (Fin 100))),
              timestamp_pos = now,
              initialCapital_pos = positionAmount s \<rparr> \<and>
     length (positions (snd (executeEntry now s signal))) = length (positions s) \<and>
     currentCapital (snd (executeEntry now s signal)) =
       js_sub (currentCapital s) (positionAmount s) \<and>
     executeEntry now (s\<lparr> positions := AList.update (tokenMint_sig signal) other (positions s) \<rparr>) signal =
       executeEntry now s signal"
  using assms
  by (simp add: executeEntry_def Let_def AList.update_conv' length_update_present
        stopLossPercent_def takeProfitPercent_def positionAmount_def)

text \<open>The theorem at the position bought for 6 with capital 14 left: a second entry at 105
  commits 4.2 and leaves 9.8; the 6 committed before are gone.\<close>

theorem executeEntry_replaces_open_position_witness:
  "map_of (positions sol_open) (tokenMint_sig (entry_signal (Fin 105))) = Some sol_position \<and>
   fst (executeEntry 7 sol_open (entry_signal (Fin 105))) = True \<and>
   map_of (positions (snd (executeEntry 7 sol_open (entry_signal (Fin 105))))) ''SOL'' =
     Some \<lparr> tokenMint_pos = ''SOL'', entryPrice = Fin 105, amount = Fin (1 / 25),
            stopLoss = Fin (2079 / 20), takeProfit = Fin (1071 / 10), timestamp_pos = 7,
            initialCapital_pos = Fin (21 / 5) \<rparr> \<and>
   currentCapital (snd (executeEntry 7 sol_open (entry_signal (Fin 105)))) = Fin (49 / 5)"
proof -
  have h: "map_of (positions sol_open) (tokenMint_sig (entry_signal (Fin 105))) = Some sol_position"
    by code_simp
  have pa: "positionAmount sol_open = Fin (21 / 5)"
    by code_simp
  from executeEntry_replaces_open_position [OF h, of 7] h pa show ?thesis
    by (simp add: entry_signal_def sol_open_def js_sub_def)
qed

section \<open>The exit-condition check\<close>


lemma checkExit_no_price:
  assumes "js_eq (withRetry (getTokenPrice fd (tokenMint_pos position))) (Fin 0)"
  shows "checkExitConditions fd position trend = None"
  using assms by (simp add: checkExitConditions_def Let_def)



section \<open>Ingestion of a sample\<close>

lemma validSample_None_iff:
  "validSample x = None \<longleftrightarrow> x = Threw \<or> x = Null \<or> x = Num NaN"
  by (cases x; cases "case x of Num y \<Rightarrow> y | _ \<Rightarrow> NaN") auto

lemma validSample_Num: "\<not> isNaN x \<Longrightarrow> validSample (Num x) = Some x"
  by simp

lemma updatePrice_untracked:
  "md tokenMint = None \<Longrightarrow> updatePrice isTest now fp fv md tokenMint = md"
  by (simp add: updatePrice_def)

lemma updatePrice_rejects:
  assumes "md tokenMint = Some data"
    and "validSample fp = None \<or> validSample fv = None"
  shows "updatePrice isTest now fp fv md tokenMint =
           md(tokenMint \<mapsto> data\<lparr> errors := errors data + 1 \<rparr>)"
  using assms by (auto simp: updatePrice_def split: option.splits)

lemma tooSoon_iff:
  "tooSoon isTest now data \<longleftrightarrow>
     (of_int (now - lastUpdated data) :: rat) < of_int (updateInterval isTest) * (9 / 10)"
proof -
  have a: "fl_mul (Fin 60000) (lit (9 / 10)) = Fin 54000"
    by code_simp
  have b: "fl_mul (Fin 10000) (lit (9 / 10)) = Fin 9000"
    by code_simp
  show ?thesis
    by (cases isTest) (simp_all add: tooSoon_def updateInterval_def a b)
qed

lemma updatePrice_too_soon:
  assumes "md tokenMint = Some data"
    and "\<not> isNaN cp" and "\<not> isNaN vol"
    and "(of_int (now - lastUpdated data) :: rat) < of_int (updateInterval isTest) * (9 / 10)"
  shows "updatePrice isTest now (Num cp) (Num vol) md tokenMint = md"
  using assms by (simp add: updatePrice_def tooSoon_iff)

lemma updatePrice_ingests:
  assumes "md tokenMint = Some data"
    and "\<not> isNaN cp" and "\<not> isNaN vol"
    and "\<not> (of_int (now - lastUpdated data) :: rat) < of_int (updateInterval isTest) * (9 / 10)"
  shows "updatePrice isTest now (Num cp) (Num vol) md tokenMint =
           md(tokenMint \<mapsto> data\<lparr>
                priceHistory :=
                  drop (length (priceHistory data) + 1 - historyLength isTest)
                    (priceHistory data @ [\<lparr> timestamp = now, price = cp, volume24h = vol \<rparr>]),
                currentPrice := cp,
                currentVolume24h := vol,
                volumeChange24h :=
                  toFixed2 (fl_mul (fl_div (fl_sub vol (currentVolume24h data))
                                           (currentVolume24h data)) (Fin 100)),
                lastUpdated := now,
                updateCount := updateCount data + 1,
                errors := 0 \<rparr>)"
proof -
  have "0 < historyLength isTest" by (simp add: historyLength_def)
  with assms show ?thesis
    by (simp add: updatePrice_def tooSoon_iff Let_def slice_last_def)
qed

text \<open>
  C6 (amended). For a tracked instrument, \<open>updatePrice\<close> rejects a sample, counting an
  error and changing nothing else, whenever the price or the volume is \<open>null\<close> or NaN or
  its lookup fails, at whatever time the sample comes; every other number, negative and
  infinite ones too, is accepted. An accepted sample that comes before 0.9 of the update
  interval has passed since the last update is dropped without any change. On a
  successful ingest (an accepted sample that does not come too soon) it sets
  \<open>volumeChange24h\<close> to the change relative to the previous \<open>currentVolume24h\<close>, rounded to 2
  decimals, appends the sample to the history, keeps the last \<open>historyLength\<close> points of
  it, and resets the error count to 0.
\<close>

theorem updatePrice_ingest:
  assumes "md tokenMint = Some data"
    and "bad = Threw \<or> bad = Null \<or> bad = Num NaN"
    and "\<not> isNaN cp" and "\<not> isNaN vol"
  shows "updatePrice isTest now bad fv md tokenMint =
           md(tokenMint \<mapsto> data\<lparr> errors := errors data + 1 \<rparr>) \<and>
         updatePrice isTest now fp bad md tokenMint =
           md(tokenMint \<mapsto> data\<lparr> errors := errors data + 1 \<rparr>) \<and>
         ((of_int (now - lastUpdated data) :: rat) < of_int (updateInterval isTest) * (9 / 10) \<longrightarrow>
            updatePrice isTest now (Num cp) (Num vol) md tokenMint = md) \<and>
         (\<not> (of_int (now - lastUpdated data) :: rat) < of_int (updateInterval isTest) * (9 / 10) \<longrightarrow>
            updatePrice isTest now (Num cp) (Num vol) md tokenMint =
              md(tokenMint \<mapsto> data\<lparr>
                priceHistory :=
                  drop (length (priceHistory data) + 1 - historyLength isTest)
                    (priceHistory data @ [\<lparr> timestamp = now, price = cp, volume24h = vol \<rparr>]),
                currentPrice := cp,
                currentVolume24h := vol,
                volumeChange24h :=
                  toFixed2 (fl_mul (fl_div (fl_sub vol (currentVolume24h data))
                                           (currentVolume24h data)) (Fin 100)),
                lastUpdated := now,
                updateCount := updateCount data + 1,
                errors := 0 \<rparr>)) \<and>
         length (drop (length (priceHistory data) + 1 - historyLength isTest)
                   (priceHistory data @ [\<lparr> timestamp = now, price = cp, volume24h = vol \<rparr>]))
           \<le> historyLength isTest"
proof -
  have bad: "validSample bad = None"
    using assms(2) by (simp add: validSample_None_iff)
  have r1: "updatePrice isTest now bad fv md tokenMint =
           md(tokenMint \<mapsto> data\<lparr> errors := errors data + 1 \<rparr>)"
    using assms(1) bad by (simp add: updatePrice_rejects)
  have r2: "updatePrice isTest now fp bad md tokenMint =
           md(tokenMint \<mapsto> data\<lparr> errors := errors data + 1 \<rparr>)"
    using assms(1) bad by (simp add: updatePrice_rejects)
  have r4: "length (drop (length (priceHistory data) + 1 - historyLength isTest)
                   (priceHistory data @ [\<lparr> timestamp = now, price = cp, volume24h = vol \<rparr>]))
           \<le> historyLength isTest"
    by simp
  have r3: "(of_int (now - lastUpdated data) :: rat) < of_int (updateInterval isTest) * (9 / 10) \<longrightarrow>
            updatePrice isTest now (Num cp) (Num vol) md tokenMint = md"
    using assms(1,3,4) by (simp add: updatePrice_too_soon)
  have r5: "\<not> (of_int (now - lastUpdated data) :: rat) < of_int (updateInterval isTest) * (9 / 10) \<longrightarrow>
            updatePrice isTest now (Num cp) (Num vol) md tokenMint =
              md(tokenMint \<mapsto> data\<lparr>
                priceHistory :=
                  drop (length (priceHistory data) + 1 - historyLength isTest)
                    (priceHistory data @ [\<lparr> timestamp = now, price = cp, volume24h = vol \<rparr>]),
                currentPrice := cp,
                currentVolume24h := vol,
                volumeChange24h :=
                  toFixed2 (fl_mul (fl_div (fl_sub vol (currentVolume24h data))
                                           (currentVolume24h data)) (Fin 100)),
                lastUpdated := now,
                updateCount := updateCount data + 1,
                errors := 0 \<rparr>)"
    using assms(1,3,4) by (simp add: updatePrice_ingests)
  from r1 r2 r3 r4 r5 show ?thesis by blast
qed

text \<open>The theorem at the two-point market, last updated at 60000, in production mode (an
  interval of one minute): a NaN price is rejected at any time; a sample of price 102
  and volume 60603 is dropped at 70000 and ingested at 120000, with a volume change of
  1 percent.\<close>

theorem updatePrice_ingest_witness:
  "sol_market ''SOL'' = Some sol_data \<and>
   \<not> isNaN (Fin 102) \<and> \<not> isNaN (Fin 60603) \<and>
   (of_int (70000 - lastUpdated sol_data) :: rat) < of_int (updateInterval False) * (9 / 10) \<and>
   \<not> (of_int (120000 - lastUpdated sol_data) :: rat) < of_int (updateInterval False) * (9 / 10) \<and>
   updatePrice False 70000 (Num NaN) (Num (Fin 60603)) sol_market ''SOL'' ''SOL'' =
     Some (sol_data\<lparr> errors := 1 \<rparr>) \<and>
   updatePrice False 70000 (Num (Fin 102)) (Num (Fin 60603)) sol_market ''SOL'' = sol_market \<and>
   updatePrice False 120000 (Num (Fin 102)) (Num (Fin 60603)) sol_market ''SOL'' ''SOL'' =
     Some (sol_data\<lparr>
       priceHistory := priceHistory sol_data @
         [\<lparr> timestamp = 120000, price = Fin 102, volume24h = Fin 60603 \<rparr>],
       currentPrice := Fin 102, currentVolume24h := Fin 60603, volumeChange24h := Fin 1,
       lastUpdated := 120000, updateCount := 3, errors := 0 \<rparr>)"
proof -
  have h1: "sol_market ''SOL'' = Some sol_data"
    by (simp add: sol_market_def)
  have h2: "Num NaN = Threw \<or> Num NaN = Null \<or> Num NaN = Num NaN"
    by simp
  have h3: "\<not> isNaN (Fin 102)" and h4: "\<not> isNaN (Fin 60603)"
    by simp_all
  have h5: "(of_int (70000 - lastUpdated sol_data) :: rat) < of_int (updateInterval False) * (9 / 10)"
    by (simp add: sol_data_def updateInterval_def)
  have h6: "\<not> (of_int (120000 - lastUpdated sol_data) :: rat) < of_int (updateInterval False) * (9 / 10)"
    by (simp add: sol_data_def updateInterval_def)
  have v: "toFixed2 (fl_mul (fl_div (fl_sub (Fin 60603) (currentVolume24h sol_data))
                                    (currentVolume24h sol_data)) (Fin 100)) = Fin 1"
    by code_simp
  have l: "length (priceHistory sol_data) + 1 - historyLength False = 0"
    by (simp add: sol_data_def historyLength_def)
  from updatePrice_ingest [where md = sol_market and tokenMint = "''SOL''" and data = sol_data
        and bad = "Num NaN" and cp = "Fin 102" and vol = "Fin 60603" and now = 70000
        and isTest = False and fv = "Num (Fin 60603)" and fp = "Num (Fin 102)",
        OF h1 h2 h3 h4]
      updatePrice_ingest [where md = sol_market and tokenMint = "''SOL''" and data = sol_data
        and bad = "Num NaN" and cp = "Fin 102" and vol = "Fin 60603" and now = 120000
        and isTest = False and fv = "Num (Fin 60603)" and fp = "Num (Fin 102)",
        OF h1 h2 h3 h4]
      h1 h3 h4 h5 h6 v l
  show ?thesis
    by (simp add: sol_data_def)
qed

text \<open>A sample with the negative price -1 is not rejected: it becomes the current price
  and the last point of the history, and the error count is 0.\<close>

theorem updatePrice_negative_price_counterexample:
  "js_lt (Fin (- 1)) (Fin 0) \<and>
   updatePrice False 120000 (Num (Fin (- 1))) (Num (Fin 90000)) sol_market ''SOL'' ''SOL'' =
     Some \<lparr> symbol = ''SOL'', currentPrice = Fin (- 1), currentVolume24h = Fin 90000,
            priceHistory = [\<lparr> timestamp = 0, price = Fin 100, volume24h = Fin 60000 \<rparr>,
                            \<lparr> timestamp = 60000, price = Fin 101, volume24h = Fin 60000 \<rparr>,
                            \<lparr> timestamp = 120000, price = Fin (- 1), volume24h = Fin 90000 \<rparr>],
            lastUpdated = 120000, updateCount = 3, errors = 0, volumeChange24h = Fin 50 \<rparr>"
  by code_simp

section \<open>The moving average of a short history\<close>

text \<open>
  C8. For a window larger than the history (\<open>n > length\<close>), \<open>calculateSMA\<close> is the
  arithmetic mean of all the prices of the history: the sum of every price, from the
  oldest to the latest, divided by their number, with no rounding to two decimals and no
  price left out. It holds for every history, so for every history of at least two
  points.
\<close>

theorem calculateSMA_window_shrinks:
  assumes "length history < n"
  shows "calculateSMA history n = arithmetic_mean (map price history)"
  using assms by (simp add: calculateSMA_def sumPrices_def arithmetic_mean_def foldl_map)

text \<open>The theorem at the prices 100 and 103: the mean is 101.5.\<close>

theorem calculateSMA_window_shrinks_witness:
  "length [\<lparr>timestamp = 0, price = Fin 100, volume24h = Fin 1000\<rparr>,
           \<lparr>timestamp = 1, price = Fin 103, volume24h = Fin 1200\<rparr>] < (20::nat) \<and>
   calculateSMA [\<lparr>timestamp = 0, price = Fin 100, volume24h = Fin 1000\<rparr>,
                 \<lparr>timestamp = 1, price = Fin 103, volume24h = Fin 1200\<rparr>] 20 =
     arithmetic_mean [Fin 100, Fin 103] \<and>
   arithmetic_mean [Fin 100, Fin 103] = Fin (203 / 2)"
proof -
  have m: "arithmetic_mean [Fin 100, Fin 103] = Fin (203 / 2)"
    by code_simp
  from calculateSMA_window_shrinks
          [of "[\<lparr>timestamp = 0, price = Fin 100, volume24h = Fin 1000\<rparr>,
                \<lparr>timestamp = 1, price = Fin 103, volume24h = Fin 1200\<rparr>]" 20] m
  show ?thesis by simp
qed

text \<open>The mean is the one the machine computes: for the prices 0.1 and 0.2 it is
  0.15000000000000002, not the binary64 value of 0.15.\<close>

lemma calculateSMA_rounds:
  "calculateSMA [\<lparr>timestamp = 0, price = lit (1 / 10), volume24h = Fin 1000\<rparr>,
                 \<lparr>timestamp = 1, price = lit (2 / 10), volume24h = Fin 1200\<rparr>] 20 =
     Fin (1351079888211149 / 9007199254740992) \<and>
   lit (15 / 100) = Fin (5404319552844595 / 36028797018963968)"
  by code_simp

section \<open>The 24h change\<close>

lemma sort_key_head:
  assumes "sort_key f xs = q # rest"
  shows "q \<in> set xs \<and> (\<forall>p \<in> set xs. f q \<le> f p)"
proof -
  have "set (sort_key f xs) = set xs" by simp
  with assms have s: "set xs = insert q (set rest)" by simp
  have "sorted (map f (sort_key f xs))" by (rule sorted_sort_key)
  with assms have "\<forall>p \<in> set rest. f q \<le> f p" by simp
  with s show ?thesis by auto
qed

text \<open>
  C9 (amended). For a tracked instrument, \<open>get24hChange\<close> returns \<open>null\<close> exactly when the
  history has fewer than 2 samples or no sample of it falls within the last 24 hours;
  otherwise it takes an earliest sample among those within the window and returns
  \<open>(currentPrice - sample.price) / sample.price * 100\<close>, rounded to 2 decimals.
\<close>

theorem get24hChange_window:
  assumes "md tokenMint = Some data"
  shows "(get24hChange now md tokenMint = None \<longleftrightarrow>
            length (priceHistory data) < 2 \<or>
            (\<forall>p \<in> set (priceHistory data). timestamp p < now - 24 * 60 * 60 * 1000)) \<and>
         (get24hChange now md tokenMint \<noteq> None \<longrightarrow>
            (\<exists>q \<in> set (priceHistory data).
               now - 24 * 60 * 60 * 1000 \<le> timestamp q \<and>
               (\<forall>p \<in> set (priceHistory data).
                  now - 24 * 60 * 60 * 1000 \<le> timestamp p \<longrightarrow> timestamp q \<le> timestamp p) \<and>
               get24hChange now md tokenMint =
                 Some (toFixed2 (fl_mul (fl_div (fl_sub (currentPrice data) (price q)) (price q))
                                        (Fin 100)))))"
proof (cases "length (priceHistory data) < 2")
  case True
  with assms show ?thesis by (simp add: get24hChange_def)
next
  case False
  let ?c = "filter (\<lambda>point. timestamp point \<ge> now - 24 * 60 * 60 * 1000) (priceHistory data)"
  show ?thesis
  proof (cases "sort_key timestamp ?c")
    case Nil
    then have "?c = []"
      by (metis length_sort length_0_conv)
    then have "\<forall>p \<in> set (priceHistory data). timestamp p < now - 24 * 60 * 60 * 1000"
      by (auto simp: filter_empty_conv)
    moreover have "get24hChange now md tokenMint = None"
      using assms False Nil by (simp add: get24hChange_def)
    ultimately show ?thesis by simp
  next
    case (Cons q rest)
    from sort_key_head [OF Cons]
    have q: "q \<in> set ?c" "\<forall>p \<in> set ?c. timestamp q \<le> timestamp p" by auto
    have r: "get24hChange now md tokenMint =
               Some (toFixed2 (fl_mul (fl_div (fl_sub (currentPrice data) (price q)) (price q))
                                      (Fin 100)))"
      using assms False Cons by (simp add: get24hChange_def)
    from q have q1: "q \<in> set (priceHistory data)" "now - 24 * 60 * 60 * 1000 \<le> timestamp q"
      by auto
    from q have q2: "\<forall>p \<in> set (priceHistory data).
                  now - 24 * 60 * 60 * 1000 \<le> timestamp p \<longrightarrow> timestamp q \<le> timestamp p"
      by auto
    have "\<not> (\<forall>p \<in> set (priceHistory data). timestamp p < now - 24 * 60 * 60 * 1000)"
      using q1 by force
    with r q1 q2 False show ?thesis by auto
  qed
qed

text \<open>A tracked instrument whose single sample is one second old: the sample is within the
  window, and the result is \<open>null\<close>.\<close>

theorem get24hChange_single_sample_counterexample:
  "fresh_market ''SOL'' =
     Some \<lparr> symbol = ''SOL'', currentPrice = Fin 100, currentVolume24h = Fin 60000,
            priceHistory = [\<lparr> timestamp = 1000, price = Fin 100, volume24h = Fin 60000 \<rparr>],
            lastUpdated = 1000, updateCount = 1, errors = 0, volumeChange24h = Fin 0 \<rparr> \<and>
   2000 - 24 * 60 * 60 * 1000 \<le> (1000 :: int) \<and>
   get24hChange 2000 fresh_market ''SOL'' = None"
  by (simp add: fresh_market_def get24hChange_def)

text \<open>The theorem at the two-point market: the earliest sample has price 100, the current
  price is 101, the change is 1 percent.\<close>

theorem get24hChange_window_witness:
  "sol_market ''SOL'' = Some sol_data \<and>
   get24hChange 70000 sol_market ''SOL'' = Some (Fin 1) \<and>
   \<not> (length (priceHistory sol_data) < 2 \<or>
      (\<forall>p \<in> set (priceHistory sol_data). timestamp p < 70000 - 24 * 60 * 60 * 1000)) \<and>
   (\<exists>q \<in> set (priceHistory sol_data).
      70000 - 24 * 60 * 60 * 1000 \<le> timestamp q \<and>
      (\<forall>p \<in> set (priceHistory sol_data).
         70000 - 24 * 60 * 60 * 1000 \<le> timestamp p \<longrightarrow> timestamp q \<le> timestamp p) \<and>
      Some (Fin 1) =
        Some (toFixed2 (fl_mul (fl_div (fl_sub (currentPrice sol_data) (price q)) (price q))
                               (Fin 100))))"
proof -
  have h: "sol_market ''SOL'' = Some sol_data"
    by (simp add: sol_market_def)
  have v: "get24hChange 70000 sol_market ''SOL'' = Some (Fin 1)"
    by code_simp
  from get24hChange_window [where md = sol_market and tokenMint = "''SOL''" and data = sol_data
      and now = 70000, OF h] h v
  show ?thesis
    by simp
qed

text \<open>The rounding is the machine's: with a current price of 183 against an earliest price
  of 160 the change is 14.37 (the quotient is a little below 14.375), and with 20201
  against 20000 it is 1.\<close>

lemma get24hChange_rounds:
  "get24hChange 70000
     (Map.empty(''SOL'' \<mapsto> sol_data\<lparr> currentPrice := Fin 183,
        priceHistory := [\<lparr> timestamp = 0, price = Fin 160, volume24h = Fin 60000 \<rparr>,
                         \<lparr> timestamp = 60000, price = Fin 183, volume24h = Fin 60000 \<rparr>] \<rparr>))
     ''SOL'' = Some (lit (1437 / 100)) \<and>
   get24hChange 70000
     (Map.empty(''SOL'' \<mapsto> sol_data\<lparr> currentPrice := Fin 20201,
        priceHistory := [\<lparr> timestamp = 0, price = Fin 20000, volume24h = Fin 60000 \<rparr>,
                         \<lparr> timestamp = 60000, price = Fin 20201, volume24h = Fin 60000 \<rparr>] \<rparr>))
     ''SOL'' = Some (Fin 1)"
  by code_simp

section \<open>The range of strength and confidence\<close>

















end
